theory Spec2Isabelle
  imports Main
begin

section \<open>Row selectors of \<open>datatable/dt.py\<close>\<close>

text \<open>
  The development embeds \<open>DataTable._rows_selector\<close> and \<open>DataTable.__call__\<close> of
  \<open>src/datatable/dt.py\<close>. Python integers are \<open>int\<close>, exceptions are values of the type
  \<open>error\<close>, the three local lists of the element loop are an explicit accumulator, and
  the objects the method can touch (the table \<open>self\<close>, the class counter, the callables
  it invokes) form an explicit state that every call returns.
\<close>

subsection \<open>Values\<close>

text \<open>
  The engine's table handle (\<open>c.DataTable\<close>), as far as the wrapper reads it: its
  attributes \<open>ncols\<close>, \<open>nrows\<close> and \<open>types\<close>.
\<close>

record c_datatable =
  c_ncols :: int
  c_nrows :: int
  c_types :: "string list"

text \<open>
  An instance of \<open>DataTable\<close>: the attributes set by \<open>__init__\<close>. The attributes \<open>_types\<close>,
  \<open>_names\<close> and \<open>_inames\<close> are \<open>None\<close> until the table is filled.
\<close>

record datatable =
  ident :: nat
  ncols :: int
  nrows :: int
  types :: "string list option"
  names :: "string list option"
  inames :: "(string \<times> nat) list option"
  dt :: c_datatable

text \<open>\<open>DataTableExpr(src=self)\<close>: the lazy-expression handle to a table.\<close>

datatype expr = DataTableExpr (src: datatable)

text \<open>
  An attribute \<open>start\<close>, \<open>stop\<close> or \<open>step\<close> of a slice: \<open>None\<close>, an \<open>int\<close>, or an object of
  another type (a float, a string), of which the code observes whether it compares equal
  to \<open>0\<close> and how it prints.
\<close>

datatype bound = BNone | BInt int | BOther bool string

text \<open>
  The Python objects a caller can pass as \<open>rows\<close>. A set and a generator are given by the
  finite sequence of elements that iterating them yields, in that order. \<open>IntObj\<close> covers
  \<open>bool\<close>, a subclass of \<open>int\<close>. \<open>FunctionObj\<close> is a plain function, an instance of
  \<open>types.FunctionType\<close> (a \<open>def\<close> or a \<open>lambda\<close>); \<open>CallableObj\<close> is any other callable (a
  \<open>functools.partial\<close>, a bound method, a builtin, an object with \<open>__call__\<close>). Both are
  given by what a call on the lazy-expression handle returns. \<open>OtherObj\<close> is an object of
  any other type, given by its printed form.
\<close>

datatype pyobj =
    Ellipsis
  | NoneObj
  | IntObj int
  | SliceObj bound bound bound
  | RangeObj int int int
  | ListObj "pyobj list"
  | TupleObj "pyobj list"
  | SetObj "pyobj list"
  | GeneratorObj "pyobj list"
  | Frame datatable
  | FunctionObj "expr \<Rightarrow> pyobj"
  | CallableObj "expr \<Rightarrow> pyobj"
  | ExprObj expr
  | OtherObj string

text \<open>
  The RowMapping objects: \<open>c.rowmapping_from_array\<close>, \<open>c.rowmapping_from_slice\<close>,
  \<open>c.rowmapping_from_slicelist\<close> and \<open>c.rowmapping_from_column\<close> are the constructors.
\<close>

datatype rowmapping =
    Array "int list"
  | Slice int int int
  | SliceList "int list" "int list" "int list"
  | MaskReference c_datatable

text \<open>
  The messages of the exceptions raised, each with the values its format string
  interpolates, in the order of the source:
  \<^item> \<open>Row_invalid nrows elem\<close>: "datatable contains {plural(nrows, 'row')}; row {elem} is invalid";
  \<^item> \<open>Step_zero elem\<close>: "In {elem} step must not be 0";
  \<^item> \<open>Not_integer_valued elem\<close>: "{elem} is not integer-valued";
  \<^item> \<open>Invalid_range elem nrows\<close>: "Invalid {elem} for a datatable with {plural(nrows, 'row')}";
  \<^item> \<open>Invalid_generated elem i\<close>: "Invalid row selector {elem} generated at position {i}";
  \<^item> \<open>Invalid_element elem i\<close>: "Invalid row selector {elem} at element {i} of the `rows` list";
  \<^item> \<open>Not_single_column arg\<close>: "`rows` argument should be a single-column datatable, got {arg}";
  \<^item> \<open>Not_boolean_column col0type\<close>: "`rows` datatable should be a boolean column, however it has type {col0type}";
  \<^item> \<open>Rows_mismatch n1 n2\<close>: "`rows` datatable has {plural(n1, 'row')}, but applied to a datatable with {plural(n2, 'row')}";
  \<^item> \<open>Unexpected_result arg\<close>: "Unexpected result produced by the `rows` function: {arg}";
  \<^item> \<open>Unexpected_argument arg\<close>: "Unexpected `rows` argument: {arg}".
\<close>

datatype message =
    Row_invalid int int
  | Step_zero pyobj
  | Not_integer_valued pyobj
  | Invalid_range pyobj int
  | Invalid_generated pyobj nat
  | Invalid_element pyobj nat
  | Not_single_column datatable
  | Not_boolean_column string
  | Rows_mismatch int int
  | Unexpected_result pyobj
  | Unexpected_argument pyobj

text \<open>
  \<open>ValueError\<close> and \<open>TypeError\<close> are the two classes of \<open>datatable.utils.typechecks\<close>;
  \<open>AssertionError\<close> is a failed \<open>assert\<close>; \<open>IndexError\<close> and \<open>NotSubscriptable\<close> are what
  Python raises on \<open>xs[0]\<close> for an empty sequence and for \<open>None\<close>.
\<close>

datatype error =
    ValueError message
  | TypeError message
  | AssertionError
  | IndexError
  | NotSubscriptable

text \<open>
  What \<open>dt.py\<close> imports from modules that are not part of the source at hand:
  \<open>normalize_slice\<close> and \<open>normalize_range\<close> of \<open>datatable.utils.misc\<close> (the latter
  returns \<open>None\<close> for an invalid range), \<open>select_by_expression\<close> of \<open>datatable.llvm\<close>, and
  the engine's application of a RowMapping to a table handle (\<open>self._dt(rows_selector)\<close>).
  They are parameters of the model.
\<close>

record externals =
  normalize_slice :: "pyobj \<Rightarrow> int \<Rightarrow> int \<times> int \<times> int"
  normalize_range :: "pyobj \<Rightarrow> int \<Rightarrow> (int \<times> int \<times> int) option"
  select_by_expression :: "expr \<Rightarrow> rowmapping"
  apply_rowmapping :: "c_datatable \<Rightarrow> rowmapping \<Rightarrow> c_datatable"

text \<open>
  The state a call can see: the table \<open>self\<close>, the class attribute
  \<open>DataTable._id_counter_\<close>, and the log of the callables invoked so far, each with the
  argument it was given.
\<close>

record state =
  this :: datatable
  id_counter :: nat
  calls :: "((expr \<Rightarrow> pyobj) \<times> expr) list"

subsection \<open>The element loop (lines 305 to 350)\<close>

type_synonym accumulators = "int list \<times> int list \<times> int list"

text \<open>\<open>x == 0\<close> and \<open>x is None or isinstance(x, int)\<close> on an attribute of a slice.\<close>

fun eq_zero :: "bound \<Rightarrow> bool" where
  "eq_zero BNone = False"
| "eq_zero (BInt k) = (k = 0)"
| "eq_zero (BOther z r) = z"

fun none_or_int :: "bound \<Rightarrow> bool" where
  "none_or_int BNone = True"
| "none_or_int (BInt k) = True"
| "none_or_int (BOther z r) = False"

text \<open>
  Lines 318 to 343, for an element \<open>elem\<close> that is a range or a slice with the attributes
  \<open>start\<close>, \<open>stop\<close>, \<open>step\<close>. \<open>[1] * k\<close> is the empty list for \<open>k \<le> 0\<close>, as \<open>replicate\<close> on
  the truncated difference is.
\<close>

definition range_or_slice ::
  "externals \<Rightarrow> int \<Rightarrow> pyobj \<Rightarrow> bound \<Rightarrow> bound \<Rightarrow> bound \<Rightarrow> accumulators \<Rightarrow> error + accumulators" where
  "range_or_slice ext n elem start stop step acc =
    (case acc of (bases, counts, strides) \<Rightarrow>
      if eq_zero step then Inl (ValueError (Step_zero elem))
      else if \<not> list_all none_or_int [start, stop, step]
        then Inl (ValueError (Not_integer_valued elem))
      else
        (case (case elem of
                 RangeObj a b c \<Rightarrow>
                   (case normalize_range ext elem n of
                      None \<Rightarrow> Inl (ValueError (Invalid_range elem n))
                    | Some res \<Rightarrow> Inr res)
               | _ \<Rightarrow> Inr (normalize_slice ext elem n)) of
           Inl e \<Rightarrow> Inl e
         | Inr (start', count, step') \<Rightarrow>
             if \<not> 0 \<le> count then Inl AssertionError
             else if count = 0 then Inr (bases, counts, strides)
             else if count = 1 then Inr (bases @ [start'], counts, strides)
             else
               (let (counts1, strides1) =
                      (if length counts < length bases
                       then (counts @ replicate (length bases - length counts) 1,
                             strides @ replicate (length bases - length strides) 1)
                       else (counts, strides))
                in Inr (bases @ [start'], counts1 @ [count], strides1 @ [step']))))"

text \<open>One iteration of the loop of line 308, on the element \<open>elem\<close> at position \<open>i\<close>.\<close>

definition process_elem ::
  "externals \<Rightarrow> int \<Rightarrow> bool \<Rightarrow> nat \<Rightarrow> pyobj \<Rightarrow> accumulators \<Rightarrow> error + accumulators" where
  "process_elem ext n from_generator i elem acc =
    (case acc of (bases, counts, strides) \<Rightarrow>
      (case elem of
         IntObj e \<Rightarrow>
           if e < - n \<or> n \<le> e then Inl (ValueError (Row_invalid n e))
           else Inr (bases @ [if e < 0 then e + n else e], counts, strides)
       | SliceObj a b c \<Rightarrow> range_or_slice ext n elem a b c acc
       | RangeObj a b c \<Rightarrow> range_or_slice ext n elem (BInt a) (BInt b) (BInt c) acc
       | _ \<Rightarrow>
           if from_generator then Inl (TypeError (Invalid_generated elem i))
           else Inl (TypeError (Invalid_element elem i))))"

text \<open>The loop over \<open>enumerate(arg)\<close>, from position \<open>i\<close> on; an exception ends it.\<close>

fun process_elems ::
  "externals \<Rightarrow> int \<Rightarrow> bool \<Rightarrow> nat \<Rightarrow> pyobj list \<Rightarrow> accumulators \<Rightarrow> error + accumulators" where
  "process_elems ext n from_generator i [] acc = Inr acc"
| "process_elems ext n from_generator i (elem # rest) acc =
    (case process_elem ext n from_generator i elem acc of
       Inl e \<Rightarrow> Inl e
     | Inr acc' \<Rightarrow> process_elems ext n from_generator (Suc i) rest acc')"

subsection \<open>The choice of the RowMapping (lines 351 to 356)\<close>

text \<open>
  \<open>bases[0]\<close>, \<open>counts[0]\<close> and \<open>strides[0]\<close> raise \<open>IndexError\<close> on an empty list.
\<close>

definition compact :: "accumulators \<Rightarrow> error + rowmapping" where
  "compact acc =
    (case acc of (bases, counts, strides) \<Rightarrow>
      if counts = [] then Inr (Array bases)
      else if length bases = 1 then
        (case bases of [] \<Rightarrow> Inl IndexError | b # bs \<Rightarrow>
          (case counts of [] \<Rightarrow> Inl IndexError | c # cs \<Rightarrow>
            (case strides of [] \<Rightarrow> Inl IndexError | st # sts \<Rightarrow> Inr (Slice b c st))))
      else Inr (SliceList bases counts strides))"

text \<open>Lines 304 to 356: the loop from empty lists, then the choice.\<close>

definition select_collection ::
  "externals \<Rightarrow> int \<Rightarrow> bool \<Rightarrow> pyobj list \<Rightarrow> error + rowmapping" where
  "select_collection ext n from_generator elems =
    (case process_elems ext n from_generator 0 elems ([], [], []) of
       Inl e \<Rightarrow> Inl e
     | Inr acc \<Rightarrow> compact acc)"

subsection \<open>The dispatch on the kind of selector\<close>

text \<open>
  Lines 294 to 304: an \<open>int\<close>, a slice or a range is wrapped into a list; a generator is
  materialized and remembered as such; the result is the pair of \<open>from_generator\<close> and
  the elements when \<open>arg\<close> is then a list, a tuple or a set.
\<close>

definition as_collection :: "pyobj \<Rightarrow> (bool \<times> pyobj list) option" where
  "as_collection arg =
    (let arg1 = (case arg of
                   IntObj k \<Rightarrow> ListObj [arg]
                 | SliceObj a b c \<Rightarrow> ListObj [arg]
                 | RangeObj a b c \<Rightarrow> ListObj [arg]
                 | _ \<Rightarrow> arg)
     in case arg1 of
          GeneratorObj xs \<Rightarrow> Some (True, xs)
        | ListObj xs \<Rightarrow> Some (False, xs)
        | TupleObj xs \<Rightarrow> Some (False, xs)
        | SetObj xs \<Rightarrow> Some (False, xs)
        | _ \<Rightarrow> None)"

text \<open>Lines 359 to 371: \<open>arg\<close> is a \<open>DataTable\<close>, applied to the table \<open>self\<close>.\<close>

definition select_mask :: "datatable \<Rightarrow> datatable \<Rightarrow> error + rowmapping" where
  "select_mask self arg =
    (if ncols arg \<noteq> 1 then Inl (ValueError (Not_single_column arg))
     else
       (case types arg of
          None \<Rightarrow> Inl NotSubscriptable
        | Some [] \<Rightarrow> Inl IndexError
        | Some (col0type # ts) \<Rightarrow>
            if col0type \<noteq> ''bool'' then Inl (TypeError (Not_boolean_column col0type))
            else if nrows arg \<noteq> nrows self
              then Inl (ValueError (Rows_mismatch (nrows arg) (nrows self)))
            else Inr (MaskReference (dt arg))))"

text \<open>Lines 380 to 384.\<close>

definition unexpected :: "pyobj \<Rightarrow> bool \<Rightarrow> error" where
  "unexpected arg nested =
    (if nested then TypeError (Unexpected_result arg) else TypeError (Unexpected_argument arg))"

text \<open>
  \<open>DataTable._rows_selector(self, arg, nested)\<close>. The call of a function selector is
  logged in the state before its result is normalized. Line 373 tests
  \<open>isinstance(arg, types.FunctionType)\<close>, which holds of a \<open>FunctionObj\<close> and of no other
  callable.
\<close>

function rows_selector ::
  "externals \<Rightarrow> state \<Rightarrow> pyobj \<Rightarrow> bool \<Rightarrow> (error + rowmapping) \<times> state" where
  "rows_selector ext s arg nested =
    (let n = nrows (this s) in
     case arg of
       Ellipsis \<Rightarrow> (Inr (Slice 0 n 1), s)
     | _ \<Rightarrow>
        (case as_collection arg of
           Some (from_generator, elems) \<Rightarrow> (select_collection ext n from_generator elems, s)
         | None \<Rightarrow>
            (case arg of
               Frame m \<Rightarrow> (select_mask (this s) m, s)
             | FunctionObj f \<Rightarrow>
                 if \<not> nested then
                   rows_selector ext
                     (s\<lparr>calls := calls s @ [(f, DataTableExpr (this s))]\<rparr>)
                     (f (DataTableExpr (this s))) True
                 else (Inl (unexpected arg nested), s)
             | ExprObj e \<Rightarrow> (Inr (select_by_expression ext e), s)
             | _ \<Rightarrow> (Inl (unexpected arg nested), s))))"
  by pat_completeness auto
termination
  by (relation "measure (\<lambda>(ext, s, arg, nested). if nested then 0 else 1)") auto

text \<open>
  \<open>DataTable.__call__(self, rows=None, ...)\<close>: \<open>rows = None\<close> is the call that leaves the
  parameter out. The other parameters are not read. \<open>DataTable()\<close> increments the class
  counter and takes it as the new table's \<open>_id\<close>.
\<close>

definition call :: "externals \<Rightarrow> state \<Rightarrow> pyobj option \<Rightarrow> (error + datatable) \<times> state" where
  "call ext s rows =
    (case rows_selector ext s (case rows of None \<Rightarrow> NoneObj | Some r \<Rightarrow> r) False of
       (Inl e, s1) \<Rightarrow> (Inl e, s1)
     | (Inr rm, s1) \<Rightarrow>
         (let s2 = s1\<lparr>id_counter := id_counter s1 + 1\<rparr>;
              res_dt = apply_rowmapping ext (dt (this s2)) rm
          in (Inr \<lparr>ident = id_counter s2, ncols = c_ncols res_dt, nrows = c_nrows res_dt,
                   types = types (this s2), names = names (this s2),
                   inames = inames (this s2), dt = res_dt\<rparr>, s2)))"

subsection \<open>The canonicalizers of \<open>datatable.utils.misc\<close>\<close>

text \<open>
  Modelled from the spec: \<open>normalize_slice\<close> of \<open>datatable.utils.misc\<close>, which is not in
  the source at hand. Spec section 4.1: the slice "follows the host language's
  slice-clamping convention", \<open>start\<close> and \<open>stop\<close> "may be omitted (None) or negative
  (counted from the end)", out-of-bounds values are clamped without error, and "the
  result always has count \<ge> 0". The host's convention is that of Python's
  \<open>slice.indices\<close>: with a negative step the bounds are clamped into \<open>[-1, nrows - 1]\<close>,
  otherwise into \<open>[0, nrows]\<close>, and the count is the length of the progression from the
  clamped start to the clamped stop. The caller rejects a zero step before the call.
\<close>

definition canonicalize_slice ::
  "int option \<Rightarrow> int option \<Rightarrow> int option \<Rightarrow> int \<Rightarrow> int \<times> int \<times> int" where
  "canonicalize_slice start stop step n =
    (let st = (case step of None \<Rightarrow> 1 | Some k \<Rightarrow> k);
         lower = (if st < 0 then - 1 else 0);
         upper = (if st < 0 then n - 1 else n);
         a = (case start of
                None \<Rightarrow> (if st < 0 then upper else lower)
              | Some x \<Rightarrow> (if x < 0 then max (x + n) lower else min x upper));
         b = (case stop of
                None \<Rightarrow> (if st < 0 then lower else upper)
              | Some x \<Rightarrow> (if x < 0 then max (x + n) lower else min x upper));
         count = (if st < 0 then (if b < a then (a - b - 1) div (- st) + 1 else 0)
                  else (if a < b then (b - a - 1) div st + 1 else 0))
     in (a, count, st))"

text \<open>
  Modelled from the spec: \<open>normalize_range\<close> of \<open>datatable.utils.misc\<close>, which is not in
  the source at hand. Spec section 4.1: the range "behaves as if the range were
  materialized into an explicit index list and validated element-by-element", and "if
  any produced index would fall outside [0, nrows), the whole range is rejected as
  Invalid (not clamped)". \<open>range_count\<close> is the number of indices that
  \<open>range(start, stop, step)\<close> produces.
\<close>

definition range_count :: "int \<Rightarrow> int \<Rightarrow> int \<Rightarrow> int" where
  "range_count start stop step =
    (if 0 < step \<and> start < stop then (stop - start - 1) div step + 1
     else if step < 0 \<and> stop < start then (start - stop - 1) div (- step) + 1
     else 0)"

text \<open>
  Modelled from the spec: the "explicit index list" of section 4.1 that
  \<open>range(start, stop, step)\<close> is materialized into.
\<close>

definition range_list :: "int \<Rightarrow> int \<Rightarrow> int \<Rightarrow> int list" where
  "range_list start stop step =
    map (\<lambda>k. start + int k * step) [0 ..< nat (range_count start stop step)]"

text \<open>
  Modelled from the spec: \<open>canonicalize_range\<close> of section 4.1, which validates the
  materialized list "element-by-element" against \<open>[0, nrows)\<close> and returns the triple of
  the range, or \<open>None\<close> for \<open>Invalid\<close>.
\<close>

definition canonicalize_range :: "int \<Rightarrow> int \<Rightarrow> int \<Rightarrow> int \<Rightarrow> (int \<times> int \<times> int) option" where
  "canonicalize_range start stop step n =
    (if list_all (\<lambda>i. 0 \<le> i \<and> i < n) (range_list start stop step)
     then Some (start, range_count start stop step, step)
     else None)"

text \<open>
  Modelled from the spec: the attribute of a slice as section 4.1 takes it, an integer or
  omitted. At every call of \<open>normalize_slice\<close> the attributes are integers or \<open>None\<close>.
\<close>

fun bound_int :: "bound \<Rightarrow> int option" where
  "bound_int BNone = None"
| "bound_int (BInt k) = Some k"
| "bound_int (BOther z r) = None"

text \<open>
  Modelled from the spec: \<open>normalize_slice(elem, nrows)\<close> as \<open>dt.py\<close> calls it, on the slice
  object; it is \<open>canonicalize_slice\<close> on the attributes of the slice.
\<close>

definition spec_normalize_slice :: "pyobj \<Rightarrow> int \<Rightarrow> int \<times> int \<times> int" where
  "spec_normalize_slice e n =
    (case e of
       SliceObj a b c \<Rightarrow> canonicalize_slice (bound_int a) (bound_int b) (bound_int c) n
     | _ \<Rightarrow> (0, 0, 1))"

text \<open>
  Modelled from the spec: \<open>normalize_range(elem, nrows)\<close> as \<open>dt.py\<close> calls it, on the range
  object; it is \<open>canonicalize_range\<close> on the attributes of the range.
\<close>

definition spec_normalize_range :: "pyobj \<Rightarrow> int \<Rightarrow> (int \<times> int \<times> int) option" where
  "spec_normalize_range e n =
    (case e of
       RangeObj a b c \<Rightarrow> canonicalize_range a b c n
     | _ \<Rightarrow> None)"

text \<open>
  Modelled from the spec: the imports of \<open>dt.py\<close> with the two canonicalizers above; the
  evaluator of lazy expressions and the engine stay parameters.
\<close>

definition spec_externals ::
  "(expr \<Rightarrow> rowmapping) \<Rightarrow> (c_datatable \<Rightarrow> rowmapping \<Rightarrow> c_datatable) \<Rightarrow> externals" where
  "spec_externals sel app =
    \<lparr>normalize_slice = spec_normalize_slice, normalize_range = spec_normalize_range,
     select_by_expression = sel, apply_rowmapping = app\<rparr>"

subsection \<open>Tables and states of the examples\<close>

text \<open>
  A table of \<open>r\<close> rows filled as \<open>_fill_from_list\<close> does, from the names and the types of
  its columns; a state around a table in which no callable has run yet; and an engine
  that evaluates every lazy expression to the empty selection and hands a table back as
  it is.
\<close>

definition table_of :: "int \<Rightarrow> (string \<times> string) list \<Rightarrow> datatable" where
  "table_of r cols =
    \<lparr>ident = 1, ncols = int (length cols), nrows = r, types = Some (map snd cols),
     names = Some (map fst cols), inames = Some (zip (map fst cols) [0 ..< length cols]),
     dt = \<lparr>c_ncols = int (length cols), c_nrows = r, c_types = map snd cols\<rparr>\<rparr>"

definition state_of :: "datatable \<Rightarrow> state" where
  "state_of t = \<lparr>this = t, id_counter = 1, calls = []\<rparr>"

definition example_externals :: externals where
  "example_externals = spec_externals (\<lambda>e. Array []) (\<lambda>d rm. d)"

text \<open>
  The accumulators are aligned when \<open>counts\<close> and \<open>strides\<close> have one length, at most that
  of \<open>bases\<close>.
\<close>

definition aligned :: "accumulators \<Rightarrow> bool" where
  "aligned acc = (case acc of (bases, counts, strides) \<Rightarrow>
     length counts = length strides \<and> length counts \<le> length bases)"

section \<open>Properties\<close>

subsection \<open>The branches of the dispatch\<close>

text \<open>
  The defining equation of \<open>rows_selector\<close> is used through the equations below, one per
  kind of selector.
\<close>

declare rows_selector.simps [simp del]

lemma select_of_collection:
  "as_collection arg = Some (fg, elems) \<Longrightarrow>
   rows_selector ext s arg nested = (select_collection ext (nrows (this s)) fg elems, s)"
  by (cases arg) (simp_all add: rows_selector.simps as_collection_def)

lemma select_of_Ellipsis:
  "rows_selector ext s Ellipsis nested = (Inr (Slice 0 (nrows (this s)) 1), s)"
  by (simp add: rows_selector.simps)

lemma select_of_Frame:
  "rows_selector ext s (Frame m) nested = (select_mask (this s) m, s)"
  by (simp add: rows_selector.simps as_collection_def)




lemma select_of_Expr:
  "rows_selector ext s (ExprObj e) nested = (Inr (select_by_expression ext e), s)"
  by (simp add: rows_selector.simps as_collection_def)

lemma select_of_None:
  "rows_selector ext s NoneObj nested = (Inl (unexpected NoneObj nested), s)"
  by (simp add: rows_selector.simps as_collection_def)

lemma select_of_Other:
  "rows_selector ext s (OtherObj r) nested = (Inl (unexpected (OtherObj r) nested), s)"
  by (simp add: rows_selector.simps as_collection_def)



subsection \<open>The lists of counts and of strides grow together\<close>

lemma range_or_slice_aligned:
  assumes "range_or_slice ext n elem a b c acc = Inr acc'" and "aligned acc"
  shows "aligned acc'"
proof -
  obtain bases counts strides where acc: "acc = (bases, counts, strides)"
    by (cases acc) auto
  from assms show ?thesis
    unfolding acc range_or_slice_def aligned_def
    by (auto split: if_splits sum.splits prod.splits option.splits pyobj.splits)
qed

lemma process_elem_aligned:
  assumes "process_elem ext n fg i elem acc = Inr acc'" and "aligned acc"
  shows "aligned acc'"
proof (cases elem)
  case (IntObj e)
  with assms show ?thesis
    by (auto simp: process_elem_def aligned_def split: prod.splits if_splits)
next
  case (SliceObj a b c)
  with assms show ?thesis
    by (auto simp: process_elem_def split: prod.splits dest: range_or_slice_aligned)
next
  case (RangeObj a b c)
  with assms show ?thesis
    by (auto simp: process_elem_def split: prod.splits dest: range_or_slice_aligned)
qed (use assms in \<open>auto simp: process_elem_def split: prod.splits if_splits\<close>)

lemma process_elems_aligned:
  "process_elems ext n fg i elems acc = Inr acc' \<Longrightarrow> aligned acc \<Longrightarrow> aligned acc'"
proof (induction elems arbitrary: i acc)
  case Nil
  then show ?case by simp
next
  case (Cons elem rest)
  then show ?case
    by (auto split: sum.splits dest: process_elem_aligned)
qed

lemma process_elems_append:
  "process_elems ext n fg i (xs @ ys) acc =
    (case process_elems ext n fg i xs acc of
       Inl e \<Rightarrow> Inl e
     | Inr acc' \<Rightarrow> process_elems ext n fg (i + length xs) ys acc')"
  by (induction xs arbitrary: i acc) (auto split: sum.splits)

lemma aligned_empty: "aligned ([], [], [])"
  by (simp add: aligned_def)

lemmas example_defs =
  example_externals_def spec_externals_def spec_normalize_slice_def spec_normalize_range_def
  canonicalize_slice_def canonicalize_range_def range_count_def range_list_def
  state_of_def table_of_def

lemmas loop_defs = process_elem_def range_or_slice_def

subsection \<open>The choice among the three shapes\<close>

text \<open>
  Claim C1. When the element loop of a collection selector ends without an exception in
  the lists \<open>bases\<close>, \<open>counts\<close> and \<open>steps\<close>, the result is \<open>Array bases\<close> if \<open>counts\<close> is
  empty; otherwise, if \<open>bases\<close> has exactly one entry, the three lists are singletons and
  the result is the \<open>Slice\<close> of their entries; otherwise it is
  \<open>SliceList bases counts steps\<close>. The result is never an \<open>Array\<close> when \<open>counts\<close> is non-empty
  and never a \<open>SliceList\<close> when \<open>bases\<close> has a single entry. No read of \<open>bases[0]\<close>,
  \<open>counts[0]\<close> or \<open>strides[0]\<close> raises.
\<close>

theorem compaction_three_shapes:
  assumes coll: "as_collection arg = Some (fg, elems)"
    and loop: "process_elems ext (nrows (this s)) fg 0 elems ([], [], []) = Inr (bases, counts, steps)"
  shows "(counts = [] \<longrightarrow> fst (rows_selector ext s arg nested) = Inr (Array bases)) \<and>
         (counts \<noteq> [] \<and> length bases = 1 \<longrightarrow>
            (\<exists>b c st. bases = [b] \<and> counts = [c] \<and> steps = [st] \<and>
               fst (rows_selector ext s arg nested) = Inr (Slice b c st))) \<and>
         (counts \<noteq> [] \<and> length bases \<noteq> 1 \<longrightarrow>
            fst (rows_selector ext s arg nested) = Inr (SliceList bases counts steps)) \<and>
         (counts \<noteq> [] \<longrightarrow> (\<forall>xs. fst (rows_selector ext s arg nested) \<noteq> Inr (Array xs))) \<and>
         (length bases = 1 \<longrightarrow>
            (\<forall>bs cs ss. fst (rows_selector ext s arg nested) \<noteq> Inr (SliceList bs cs ss)))"
proof -
  have res: "fst (rows_selector ext s arg nested) = compact (bases, counts, steps)"
    by (simp add: select_of_collection [OF coll] select_collection_def loop)
  have al: "length counts = length steps" "length counts \<le> length bases"
    using process_elems_aligned [OF loop aligned_empty] by (simp_all add: aligned_def)
  have one: "\<exists>b c st. bases = [b] \<and> counts = [c] \<and> steps = [st]"
    if "counts \<noteq> []" "length bases = 1"
  proof -
    from that al have "length counts = 1" "length steps = 1"
      by (cases counts; simp)+
    with that show ?thesis
      by (auto simp: length_Suc_conv)
  qed
  show ?thesis
    unfolding res using one
    by (auto simp: compact_def split: list.splits)
qed

text \<open>
  The selector \<open>[slice(2, 8, 2)]\<close> on 10 rows: the loop ends in \<open>([2], [3], [2])\<close> and the
  result is \<open>Slice(2, 3, 2)\<close>.
\<close>

theorem compaction_three_shapes_witness:
  "as_collection (ListObj [SliceObj (BInt 2) (BInt 8) (BInt 2)]) =
     Some (False, [SliceObj (BInt 2) (BInt 8) (BInt 2)]) \<and>
   process_elems example_externals (nrows (this (state_of (table_of 10 [(''C1'', ''int'')]))))
     False 0 [SliceObj (BInt 2) (BInt 8) (BInt 2)] ([], [], []) = Inr ([2], [3], [2]) \<and>
   fst (rows_selector example_externals (state_of (table_of 10 [(''C1'', ''int'')]))
     (ListObj [SliceObj (BInt 2) (BInt 8) (BInt 2)]) False) = Inr (Slice 2 3 2)"
proof -
  have c: "as_collection (ListObj [SliceObj (BInt 2) (BInt 8) (BInt 2)]) =
     Some (False, [SliceObj (BInt 2) (BInt 8) (BInt 2)])"
    by (simp add: as_collection_def)
  have l: "process_elems example_externals (nrows (this (state_of (table_of 10 [(''C1'', ''int'')]))))
     False 0 [SliceObj (BInt 2) (BInt 8) (BInt 2)] ([], [], []) = Inr ([2], [3], [2])"
    by (simp add: example_defs loop_defs)
  from compaction_three_shapes [OF c l, of False] c l show ?thesis
    by simp
qed

subsection \<open>Single steps of the loop\<close>

lemma range_or_slice_many:
  assumes "normalize_slice ext (SliceObj a b c) n = (start, count, step)"
    and "\<not> eq_zero c" and "list_all none_or_int [a, b, c]" and "1 < count"
  shows "range_or_slice ext n (SliceObj a b c) a b c (bases, counts, strides) =
     Inr (bases @ [start],
          (if length counts < length bases
           then counts @ replicate (length bases - length counts) 1 else counts) @ [count],
          (if length counts < length bases
           then strides @ replicate (length bases - length strides) 1 else strides) @ [step])"
  using assms by (simp add: range_or_slice_def)

lemma process_int:
  assumes "- n \<le> i" and "i < n"
  shows "process_elem ext n fg k (IntObj i) (bases, counts, strides) =
     Inr (bases @ [if i < 0 then i + n else i], counts, strides)"
  using assms by (simp add: process_elem_def)

lemma process_int_invalid:
  assumes "i < - n \<or> n \<le> i"
  shows "process_elem ext n fg k (IntObj i) acc = Inl (ValueError (Row_invalid n i))"
  using assms by (cases acc) (simp add: process_elem_def)

lemma process_slice:
  "process_elem ext n fg k (SliceObj a b c) acc = range_or_slice ext n (SliceObj a b c) a b c acc"
  by (cases acc) (simp add: process_elem_def)

subsection \<open>A scalar after a slice\<close>





subsection \<open>A scalar before a slice\<close>

text \<open>
  Claim C4. When a collection selector holds a scalar in range followed by a slice that
  \<open>normalize_slice\<close> maps to a count above 1, the scalar's count and step are filled in as
  \<open>1\<close> before the triple of the slice is appended: the result is the \<open>SliceList\<close> of the
  scalar (counted from the end when negative) and the slice's start, of the counts \<open>1\<close>
  and the slice's count, and of the steps \<open>1\<close> and the slice's step.
\<close>

theorem scalar_then_slice_backfill:
  assumes "normalize_slice ext (SliceObj a b c) (nrows (this s)) = (start, count, step)"
    and "\<not> eq_zero c" and "list_all none_or_int [a, b, c]" and "1 < count"
    and "- nrows (this s) \<le> i" and "i < nrows (this s)"
  shows "process_elems ext (nrows (this s)) False 0 [IntObj i, SliceObj a b c] ([], [], []) =
           Inr ([if i < 0 then i + nrows (this s) else i, start], [1, count], [1, step]) \<and>
         fst (rows_selector ext s (ListObj [IntObj i, SliceObj a b c]) nested) =
           Inr (SliceList [if i < 0 then i + nrows (this s) else i, start] [1, count] [1, step])"
proof -
  define j where "j = (if i < 0 then i + nrows (this s) else i)"
  have loop: "process_elems ext (nrows (this s)) False 0 [IntObj i, SliceObj a b c] ([], [], []) =
           Inr ([j, start], [1, count], [1, step])"
    using assms by (simp add: process_slice range_or_slice_many process_int j_def)
  have coll: "as_collection (ListObj [IntObj i, SliceObj a b c]) = Some (False, [IntObj i, SliceObj a b c])"
    by (simp add: as_collection_def)
  have "fst (rows_selector ext s (ListObj [IntObj i, SliceObj a b c]) nested) =
      compact ([j, start], [1, count], [1, step])"
    unfolding select_of_collection [OF coll] select_collection_def loop by simp
  then show ?thesis
    using loop unfolding j_def by (simp add: compact_def)
qed

text \<open>
  The selector \<open>[3, slice(0, 5, 1)]\<close> on 10 rows gives
  \<open>SliceList([3, 0], [1, 5], [1, 1])\<close>.
\<close>

theorem scalar_then_slice_backfill_witness:
  "process_elems example_externals 10 False 0
     [IntObj 3, SliceObj (BInt 0) (BInt 5) (BInt 1)] ([], [], []) = Inr ([3, 0], [1, 5], [1, 1]) \<and>
   fst (rows_selector example_externals (state_of (table_of 10 [(''C1'', ''int'')]))
     (ListObj [IntObj 3, SliceObj (BInt 0) (BInt 5) (BInt 1)]) False) =
       Inr (SliceList [3, 0] [1, 5] [1, 1])"
proof -
  have h: "normalize_slice example_externals (SliceObj (BInt 0) (BInt 5) (BInt 1))
      (nrows (this (state_of (table_of 10 [(''C1'', ''int'')])))) = (0, 5, 1)"
    by (simp add: example_defs)
  from scalar_then_slice_backfill [OF h, of 3 False] show ?thesis
    by (simp add: state_of_def table_of_def)
qed

subsection \<open>A list of one integer\<close>

text \<open>
  Claim C5. For every row count and every integer \<open>i\<close>, the list \<open>[i]\<close> normalizes to
  \<open>Array([i])\<close> when \<open>0 \<le> i < nrows\<close>, to \<open>Array([i + nrows])\<close> when \<open>-nrows \<le> i < 0\<close>, and
  fails with the \<open>ValueError\<close> that carries the row count and \<open>i\<close> when \<open>i\<close> is outside
  \<open>[-nrows, nrows)\<close>.
\<close>

theorem single_index_list:
  "(0 \<le> i \<and> i < nrows (this s) \<longrightarrow>
      fst (rows_selector ext s (ListObj [IntObj i]) nested) = Inr (Array [i])) \<and>
   (- nrows (this s) \<le> i \<and> i < 0 \<longrightarrow>
      fst (rows_selector ext s (ListObj [IntObj i]) nested) = Inr (Array [i + nrows (this s)])) \<and>
   (i < - nrows (this s) \<or> nrows (this s) \<le> i \<longrightarrow>
      fst (rows_selector ext s (ListObj [IntObj i]) nested) =
        Inl (ValueError (Row_invalid (nrows (this s)) i)))"
proof -
  have coll: "as_collection (ListObj [IntObj i]) = Some (False, [IntObj i])"
    by (simp add: as_collection_def)
  have res: "fst (rows_selector ext s (ListObj [IntObj i]) nested) =
      select_collection ext (nrows (this s)) False [IntObj i]"
    unfolding select_of_collection [OF coll] by simp
  show ?thesis
    unfolding res
    by (auto simp: select_collection_def process_int process_int_invalid compact_def)
qed

text \<open>
  On 10 rows, \<open>[3]\<close> gives \<open>Array([3])\<close>, \<open>[-2]\<close> gives \<open>Array([8])\<close> and \<open>[10]\<close> fails; on
  no rows, \<open>[0]\<close> fails.
\<close>

theorem single_index_list_witness:
  "fst (rows_selector example_externals (state_of (table_of 10 [(''C1'', ''int'')])) (ListObj [IntObj 3]) False)
     = Inr (Array [3]) \<and>
   fst (rows_selector example_externals (state_of (table_of 10 [(''C1'', ''int'')])) (ListObj [IntObj (- 2)]) False)
     = Inr (Array [8]) \<and>
   fst (rows_selector example_externals (state_of (table_of 10 [(''C1'', ''int'')])) (ListObj [IntObj 10]) False)
     = Inl (ValueError (Row_invalid 10 10)) \<and>
   fst (rows_selector example_externals (state_of (table_of 0 [(''C1'', ''int'')])) (ListObj [IntObj 0]) False)
     = Inl (ValueError (Row_invalid 0 0))"
  using single_index_list [of 3 "state_of (table_of 10 [(''C1'', ''int'')])" example_externals False]
    single_index_list [of "- 2" "state_of (table_of 10 [(''C1'', ''int'')])" example_externals False]
    single_index_list [of 10 "state_of (table_of 10 [(''C1'', ''int'')])" example_externals False]
    single_index_list [of 0 "state_of (table_of 0 [(''C1'', ''int'')])" example_externals False]
  by (simp add: state_of_def table_of_def)

subsection \<open>Slices and ranges with negative bounds\<close>

lemma select_of_list:
  "rows_selector ext s (ListObj elems) nested =
     (select_collection ext (nrows (this s)) False elems, s)"
  by (rule select_of_collection) (simp add: as_collection_def)

lemma process_range:
  "process_elem ext n fg k (RangeObj a b c) acc =
     range_or_slice ext n (RangeObj a b c) (BInt a) (BInt b) (BInt c) acc"
  by (cases acc) (simp add: process_elem_def)

lemma range_count_nonneg: "0 \<le> range_count a b c"
  by (simp add: range_count_def pos_imp_zdiv_nonneg_iff)

lemma select_of_single_range:
  assumes "c \<noteq> 0"
  shows "fst (rows_selector (spec_externals sel app) s (ListObj [RangeObj a b c]) nested) =
     (if list_all (\<lambda>i. 0 \<le> i \<and> i < nrows (this s)) (range_list a b c)
      then Inr (if range_count a b c = 0 then Array []
                else if range_count a b c = 1 then Array [a]
                else Slice a (range_count a b c) c)
      else Inl (ValueError (Invalid_range (RangeObj a b c) (nrows (this s)))))"
  using assms range_count_nonneg [of a b c]
  by (simp add: select_of_list select_collection_def process_range range_or_slice_def
      spec_externals_def spec_normalize_range_def canonicalize_range_def compact_def)

text \<open>
  Claim C3, as the canonicalizers modelled from the spec decide it. On 10 rows,
  \<open>[slice(None, None, -1)]\<close> gives \<open>Slice(9, 10, -1)\<close>, and so does \<open>[range(9, -1, -1)]\<close>: the
  range expands into the indices 9 down to 0, all of them rows, and its stop \<open>-1\<close> is not
  one of them. The two forms part on the triple \<open>(9, -1, -1)\<close>: as a slice it counts \<open>-1\<close>
  from the end and selects no row. On any number of rows, a range of non-zero step is
  rejected, with the \<open>ValueError\<close> that carries the range and the row count, exactly when
  an index it produces is not a row, as \<open>range(9, -2, -1)\<close> does with \<open>-1\<close> on 10 rows;
  otherwise it is accepted, as the empty array, the array of its start, or the \<open>Slice\<close> of
  its start, its number of indices and its step.
\<close>

theorem slice_range_asymmetry:
  "(nrows (this s) = 10 \<longrightarrow>
      fst (rows_selector (spec_externals sel app) s
         (ListObj [SliceObj BNone BNone (BInt (- 1))]) nested) = Inr (Slice 9 10 (- 1)) \<and>
      fst (rows_selector (spec_externals sel app) s
         (ListObj [RangeObj 9 (- 1) (- 1)]) nested) = Inr (Slice 9 10 (- 1)) \<and>
      fst (rows_selector (spec_externals sel app) s
         (ListObj [SliceObj (BInt 9) (BInt (- 1)) (BInt (- 1))]) nested) = Inr (Array []) \<and>
      fst (rows_selector (spec_externals sel app) s
         (ListObj [RangeObj 9 (- 2) (- 1)]) nested) =
        Inl (ValueError (Invalid_range (RangeObj 9 (- 2) (- 1)) 10))) \<and>
   (c \<noteq> 0 \<longrightarrow>
      (fst (rows_selector (spec_externals sel app) s (ListObj [RangeObj a b c]) nested) =
         Inl (ValueError (Invalid_range (RangeObj a b c) (nrows (this s))))) =
      (\<exists>i \<in> set (range_list a b c). i < 0 \<or> nrows (this s) \<le> i)) \<and>
   (c \<noteq> 0 \<and> list_all (\<lambda>i. 0 \<le> i \<and> i < nrows (this s)) (range_list a b c) \<longrightarrow>
      fst (rows_selector (spec_externals sel app) s (ListObj [RangeObj a b c]) nested) =
        Inr (if range_count a b c = 0 then Array []
             else if range_count a b c = 1 then Array [a]
             else Slice a (range_count a b c) c))"
proof -
  have s1: "spec_normalize_slice (SliceObj BNone BNone (BInt (- 1))) 10 = (9, 10, - 1)"
    by (simp add: spec_normalize_slice_def canonicalize_slice_def)
  have s2: "spec_normalize_slice (SliceObj (BInt 9) (BInt (- 1)) (BInt (- 1))) 10 = (9, 0, - 1)"
    by (simp add: spec_normalize_slice_def canonicalize_slice_def)
  have r1: "spec_normalize_range (RangeObj 9 (- 1) (- 1)) 10 = Some (9, 10, - 1)"
    by (auto simp: spec_normalize_range_def canonicalize_range_def range_list_def range_count_def
        list_all_iff)
  have r2: "spec_normalize_range (RangeObj 9 (- 2) (- 1)) 10 = None"
    by (auto simp: spec_normalize_range_def canonicalize_range_def range_list_def range_count_def
        list_all_iff intro: bexI [of _ 10])
  have instances:
    "fst (rows_selector (spec_externals sel app) s
         (ListObj [SliceObj BNone BNone (BInt (- 1))]) nested) = Inr (Slice 9 10 (- 1)) \<and>
     fst (rows_selector (spec_externals sel app) s
         (ListObj [RangeObj 9 (- 1) (- 1)]) nested) = Inr (Slice 9 10 (- 1)) \<and>
     fst (rows_selector (spec_externals sel app) s
         (ListObj [SliceObj (BInt 9) (BInt (- 1)) (BInt (- 1))]) nested) = Inr (Array []) \<and>
     fst (rows_selector (spec_externals sel app) s
         (ListObj [RangeObj 9 (- 2) (- 1)]) nested) =
       Inl (ValueError (Invalid_range (RangeObj 9 (- 2) (- 1)) 10))"
    if "nrows (this s) = 10"
    using that
    by (simp add: select_of_list select_collection_def process_slice process_range
        range_or_slice_def spec_externals_def s1 s2 r1 r2 compact_def)
  have rejected:
    "(fst (rows_selector (spec_externals sel app) s (ListObj [RangeObj a b c]) nested) =
         Inl (ValueError (Invalid_range (RangeObj a b c) (nrows (this s))))) =
      (\<exists>i \<in> set (range_list a b c). i < 0 \<or> nrows (this s) \<le> i)"
    if "c \<noteq> 0"
    unfolding select_of_single_range [OF that]
    by (auto simp: list_all_iff not_le not_less)
  have accepted:
    "fst (rows_selector (spec_externals sel app) s (ListObj [RangeObj a b c]) nested) =
        Inr (if range_count a b c = 0 then Array []
             else if range_count a b c = 1 then Array [a]
             else Slice a (range_count a b c) c)"
    if "c \<noteq> 0" and "list_all (\<lambda>i. 0 \<le> i \<and> i < nrows (this s)) (range_list a b c)"
    unfolding select_of_single_range [OF that(1)] using that(2) by simp
  from instances rejected accepted show ?thesis
    by blast
qed

text \<open>
  On the table of 10 rows of the examples: the slice \<open>(9, -1, -1)\<close> selects no row, and
  \<open>range(9, -2, -1)\<close> is rejected and produces an index that is not a row.
\<close>

theorem slice_range_asymmetry_witness:
  "nrows (this (state_of (table_of 10 [(''C1'', ''int'')]))) = 10 \<and>
   fst (rows_selector example_externals (state_of (table_of 10 [(''C1'', ''int'')]))
     (ListObj [SliceObj (BInt 9) (BInt (- 1)) (BInt (- 1))]) False) = Inr (Array []) \<and>
   fst (rows_selector example_externals (state_of (table_of 10 [(''C1'', ''int'')]))
     (ListObj [RangeObj 9 (- 2) (- 1)]) False) =
       Inl (ValueError (Invalid_range (RangeObj 9 (- 2) (- 1)) 10)) \<and>
   (\<exists>i \<in> set (range_list 9 (- 2) (- 1)). i < 0 \<or> 10 \<le> i)"
proof -
  let ?s = "state_of (table_of 10 [(''C1'', ''int'')])"
  have h: "nrows (this ?s) = 10"
    by (simp add: state_of_def table_of_def)
  note th = slice_range_asymmetry [of ?s "\<lambda>e. Array []" "\<lambda>d rm. d" False "- 1" 9 "- 2",
      folded example_externals_def]
  from th h have empty: "fst (rows_selector example_externals ?s
       (ListObj [SliceObj (BInt 9) (BInt (- 1)) (BInt (- 1))]) False) = Inr (Array [])"
    and rejected: "fst (rows_selector example_externals ?s
       (ListObj [RangeObj 9 (- 2) (- 1)]) False) =
         Inl (ValueError (Invalid_range (RangeObj 9 (- 2) (- 1)) 10))"
    by blast+
  from th have "(fst (rows_selector example_externals ?s
       (ListObj [RangeObj 9 (- 2) (- 1)]) False) =
         Inl (ValueError (Invalid_range (RangeObj 9 (- 2) (- 1)) (nrows (this ?s))))) =
       (\<exists>i \<in> set (range_list 9 (- 2) (- 1)). i < 0 \<or> nrows (this ?s) \<le> i)"
    by simp
  with rejected have "\<exists>i \<in> set (range_list 9 (- 2) (- 1)). i < 0 \<or> 10 \<le> i"
    unfolding h by simp
  with h empty rejected show ?thesis
    by simp
qed

text \<open>
  Claim C3 says that \<open>[range(9, -1, -1)]\<close> on 10 rows is rejected with the error naming the
  range and the row count. It is accepted.
\<close>

theorem reversed_range_rejected_counterexample:
  "fst (rows_selector example_externals (state_of (table_of 10 [(''C1'', ''int'')]))
     (ListObj [RangeObj 9 (- 1) (- 1)]) False) = Inr (Slice 9 10 (- 1)) \<and>
   fst (rows_selector example_externals (state_of (table_of 10 [(''C1'', ''int'')]))
     (ListObj [RangeObj 9 (- 1) (- 1)]) False) \<noteq>
       Inl (ValueError (Invalid_range (RangeObj 9 (- 1) (- 1)) 10))"
proof -
  have r1: "spec_normalize_range (RangeObj 9 (- 1) (- 1)) 10 = Some (9, 10, - 1)"
    by (auto simp: spec_normalize_range_def canonicalize_range_def range_list_def range_count_def
        list_all_iff)
  have "fst (rows_selector example_externals (state_of (table_of 10 [(''C1'', ''int'')]))
     (ListObj [RangeObj 9 (- 1) (- 1)]) False) = Inr (Slice 9 10 (- 1))"
    by (simp add: select_of_list select_collection_def process_range range_or_slice_def
        example_externals_def spec_externals_def state_of_def table_of_def r1 compact_def)
  then show ?thesis by simp
qed

subsection \<open>Bounds that are not integers\<close>

lemma range_or_slice_not_integer:
  assumes "\<not> eq_zero c" and "\<not> list_all none_or_int [a, b, c]"
  shows "range_or_slice ext n elem a b c acc = Inl (ValueError (Not_integer_valued elem))"
  using assms by (cases acc) (simp add: range_or_slice_def)

text \<open>
  Claim C6, with the class of the error as the code raises it. When the elements before
  a slice of a collection selector are accepted, the step of the slice does not compare
  equal to zero and one of its \<open>start\<close>, \<open>stop\<close>, \<open>step\<close> is neither \<open>None\<close> nor an \<open>int\<close>,
  the selector is rejected with the \<open>ValueError\<close> (not the \<open>TypeError\<close>) "is not
  integer-valued" that carries the slice. The attributes of a range object are always
  integers.
\<close>

theorem non_integer_bound_rejected:
  assumes coll: "as_collection arg = Some (fg, pre @ SliceObj a b c # post)"
    and pre: "process_elems ext (nrows (this s)) fg 0 pre ([], [], []) = Inr acc"
    and step: "\<not> eq_zero c"
    and bound: "\<not> none_or_int a \<or> \<not> none_or_int b \<or> \<not> none_or_int c"
  shows "fst (rows_selector ext s arg nested) =
           Inl (ValueError (Not_integer_valued (SliceObj a b c)))"
proof -
  from bound have "\<not> list_all none_or_int [a, b, c]"
    by auto
  with step have "process_elem ext (nrows (this s)) fg (length pre) (SliceObj a b c) acc =
      Inl (ValueError (Not_integer_valued (SliceObj a b c)))"
    by (simp add: process_slice range_or_slice_not_integer)
  then have "process_elems ext (nrows (this s)) fg 0 (pre @ SliceObj a b c # post) ([], [], []) =
      Inl (ValueError (Not_integer_valued (SliceObj a b c)))"
    by (simp add: process_elems_append pre)
  then show ?thesis
    unfolding select_of_collection [OF coll] select_collection_def by simp
qed

text \<open>The tuple \<open>(1, slice(None, 2.5), 99)\<close> on 10 rows.\<close>

theorem non_integer_bound_rejected_witness:
  "as_collection (TupleObj [IntObj 1, SliceObj BNone (BOther False ''2.5'') BNone, IntObj 99]) =
     Some (False, [IntObj 1] @ SliceObj BNone (BOther False ''2.5'') BNone # [IntObj 99]) \<and>
   process_elems example_externals (nrows (this (state_of (table_of 10 [(''C1'', ''int'')]))))
     False 0 [IntObj 1] ([], [], []) = Inr ([1], [], []) \<and>
   \<not> eq_zero BNone \<and> \<not> none_or_int (BOther False ''2.5'') \<and>
   fst (rows_selector example_externals (state_of (table_of 10 [(''C1'', ''int'')]))
     (TupleObj [IntObj 1, SliceObj BNone (BOther False ''2.5'') BNone, IntObj 99]) False) =
       Inl (ValueError (Not_integer_valued (SliceObj BNone (BOther False ''2.5'') BNone)))"
proof -
  have c: "as_collection (TupleObj [IntObj 1, SliceObj BNone (BOther False ''2.5'') BNone, IntObj 99]) =
     Some (False, [IntObj 1] @ SliceObj BNone (BOther False ''2.5'') BNone # [IntObj 99])"
    by (simp add: as_collection_def)
  have p: "process_elems example_externals (nrows (this (state_of (table_of 10 [(''C1'', ''int'')]))))
     False 0 [IntObj 1] ([], [], []) = Inr ([1], [], [])"
    by (simp add: process_int state_of_def table_of_def)
  have z: "\<not> eq_zero BNone"
    by simp
  have b: "\<not> none_or_int BNone \<or> \<not> none_or_int (BOther False ''2.5'') \<or> \<not> none_or_int BNone"
    by simp
  from non_integer_bound_rejected [OF c p z b, of False] c p show ?thesis
    by simp
qed

text \<open>
  Claim C6 says that the error is of the \<open>TypeError\<close> class. For \<open>[slice(0.5, None)]\<close> it
  is a \<open>ValueError\<close>.
\<close>

theorem non_integer_bound_type_error_counterexample:
  "fst (rows_selector example_externals (state_of (table_of 10 [(''C1'', ''int'')]))
     (ListObj [SliceObj (BOther False ''0.5'') BNone BNone]) False) =
       Inl (ValueError (Not_integer_valued (SliceObj (BOther False ''0.5'') BNone BNone))) \<and>
   fst (rows_selector example_externals (state_of (table_of 10 [(''C1'', ''int'')]))
     (ListObj [SliceObj (BOther False ''0.5'') BNone BNone]) False) \<noteq>
       Inl (TypeError (Not_integer_valued (SliceObj (BOther False ''0.5'') BNone BNone)))"
  by (simp add: select_of_list select_collection_def process_slice range_or_slice_def)

subsection \<open>A table as a boolean mask\<close>

text \<open>
  Claim C7, with the class of each error as the code raises it. For a table \<open>m\<close> given as
  the selector: if its column count is not 1 the result is the \<open>ValueError\<close> that carries
  \<open>m\<close> (whose printed form shows its shape); otherwise, if the type \<open>ty\<close> of its column is
  not \<open>bool\<close>, the result is the \<open>TypeError\<close> (not a \<open>ValueError\<close>) that carries \<open>ty\<close>;
  otherwise, if its row count differs from that of \<open>self\<close>, the result is the \<open>ValueError\<close>
  that carries both row counts; otherwise it is the mask reference that
  \<open>c.rowmapping_from_column\<close> makes of the table's handle.
\<close>

theorem mask_selector_checks:
  "(ncols m \<noteq> 1 \<longrightarrow>
      fst (rows_selector ext s (Frame m) nested) = Inl (ValueError (Not_single_column m))) \<and>
   (ncols m = 1 \<and> types m = Some (ty # tys) \<and> ty \<noteq> ''bool'' \<longrightarrow>
      fst (rows_selector ext s (Frame m) nested) = Inl (TypeError (Not_boolean_column ty))) \<and>
   (ncols m = 1 \<and> types m = Some (''bool'' # tys) \<and> nrows m \<noteq> nrows (this s) \<longrightarrow>
      fst (rows_selector ext s (Frame m) nested) =
        Inl (ValueError (Rows_mismatch (nrows m) (nrows (this s))))) \<and>
   (ncols m = 1 \<and> types m = Some (''bool'' # tys) \<and> nrows m = nrows (this s) \<longrightarrow>
      fst (rows_selector ext s (Frame m) nested) = Inr (MaskReference (dt m)))"
  by (simp add: select_of_Frame select_mask_def)

text \<open>
  On a table of 10 rows: a mask of two columns, a mask of type \<open>int\<close>, a boolean mask of
  7 rows, and a boolean mask of 10 rows.
\<close>

theorem mask_selector_checks_witness:
  "fst (rows_selector example_externals (state_of (table_of 10 [(''C1'', ''int'')]))
      (Frame (table_of 10 [(''C1'', ''bool''), (''C2'', ''bool'')])) False) =
     Inl (ValueError (Not_single_column (table_of 10 [(''C1'', ''bool''), (''C2'', ''bool'')]))) \<and>
   fst (rows_selector example_externals (state_of (table_of 10 [(''C1'', ''int'')]))
      (Frame (table_of 10 [(''C1'', ''int'')])) False) = Inl (TypeError (Not_boolean_column ''int'')) \<and>
   fst (rows_selector example_externals (state_of (table_of 10 [(''C1'', ''int'')]))
      (Frame (table_of 7 [(''C1'', ''bool'')])) False) = Inl (ValueError (Rows_mismatch 7 10)) \<and>
   fst (rows_selector example_externals (state_of (table_of 10 [(''C1'', ''int'')]))
      (Frame (table_of 10 [(''C1'', ''bool'')])) False) =
     Inr (MaskReference \<lparr>c_ncols = 1, c_nrows = 10, c_types = [''bool'']\<rparr>)"
  using
    mask_selector_checks [where m = "table_of 10 [(''C1'', ''bool''), (''C2'', ''bool'')]" and ext = example_externals
      and s = "state_of (table_of 10 [(''C1'', ''int'')])" and nested = False]
    mask_selector_checks [where m = "table_of 10 [(''C1'', ''int'')]" and ty = "''int''" and tys = "[]"
      and ext = example_externals and s = "state_of (table_of 10 [(''C1'', ''int'')])" and nested = False]
    mask_selector_checks [where m = "table_of 7 [(''C1'', ''bool'')]" and tys = "[]"
      and ext = example_externals and s = "state_of (table_of 10 [(''C1'', ''int'')])" and nested = False]
    mask_selector_checks [where m = "table_of 10 [(''C1'', ''bool'')]" and tys = "[]"
      and ext = example_externals and s = "state_of (table_of 10 [(''C1'', ''int'')])" and nested = False]
  by (simp add: table_of_def state_of_def)

text \<open>
  Claim C7 says that a column of another type fails with an error of the \<open>ValueError\<close>
  class. For a column of type \<open>int\<close> it is a \<open>TypeError\<close>.
\<close>

theorem mask_type_value_error_counterexample:
  "fst (rows_selector example_externals (state_of (table_of 10 [(''C1'', ''int'')]))
      (Frame (table_of 10 [(''C1'', ''int'')])) False) = Inl (TypeError (Not_boolean_column ''int'')) \<and>
   fst (rows_selector example_externals (state_of (table_of 10 [(''C1'', ''int'')]))
      (Frame (table_of 10 [(''C1'', ''int'')])) False) \<noteq> Inl (ValueError (Not_boolean_column ''int''))"
  by (simp add: select_of_Frame select_mask_def table_of_def state_of_def)

subsection \<open>A function as the selector\<close>




subsection \<open>What the result depends on\<close>







subsection \<open>No selector at all\<close>

text \<open>
  Claim C10. \<open>__call__\<close> without \<open>rows\<close> passes \<open>None\<close> to \<open>_rows_selector\<close>, which fails with
  the \<open>TypeError\<close> of the outer call, "Unexpected rows argument", carrying \<open>None\<close>; no row
  is selected. The ellipsis is what gives the identity selection \<open>Slice(0, nrows, 1)\<close>,
  and \<open>__call__\<close> with it returns the table the engine makes of that selection.
\<close>

theorem no_rows_argument_rejected:
  "call ext s None = (Inl (TypeError (Unexpected_argument NoneObj)), s) \<and>
   rows_selector ext s NoneObj False = (Inl (TypeError (Unexpected_argument NoneObj)), s) \<and>
   rows_selector ext s Ellipsis nested = (Inr (Slice 0 (nrows (this s)) 1), s) \<and>
   fst (call ext s (Some Ellipsis)) =
     Inr \<lparr>ident = id_counter s + 1,
          ncols = c_ncols (apply_rowmapping ext (dt (this s)) (Slice 0 (nrows (this s)) 1)),
          nrows = c_nrows (apply_rowmapping ext (dt (this s)) (Slice 0 (nrows (this s)) 1)),
          types = types (this s), names = names (this s), inames = inames (this s),
          dt = apply_rowmapping ext (dt (this s)) (Slice 0 (nrows (this s)) 1)\<rparr>"
  by (simp add: call_def select_of_None select_of_Ellipsis unexpected_def Let_def)

end
